theory Spec2Isabelle
  imports Main "HOL-Library.Word"
begin

unbundle bit_operations_syntax

section \<open>The lplrs2018 reward-system sketch\<close>

text \<open>
  The sketch \<^verbatim>\<open>lplrs2018.ino\<close> runs on an Arduino Mega 2560 (ATmega2560). Its logic lives in
  interrupt service routines that share a handful of volatile globals; the main loop only sets
  up calibration trials and talks to the serial port and the scale. An ISR declared with
  \<^verbatim>\<open>ISR(...)\<close> runs with interrupts disabled, so every ISR body is one atomic state
  transformer here.
\<close>

subsection \<open>Machine state\<close>

text \<open>
  \<^verbatim>\<open>unsigned int\<close> is 16 bits wide on the AVR. \<^verbatim>\<open>TCNT2\<close> and the interrupt mask registers
  are 8 bits wide, the counters of timers 1, 4 and 5 are 16 bits wide.
\<close>

type_synonym uint = "16 word"

record mcu =
  manualTrigger :: bool
  digitalTrigger :: bool
  draining :: bool
  valveOpen :: bool
  inCalibration :: bool
  sequenceComplete :: bool
  tickCounter :: uint
  maxTicks :: uint
  releaseCount :: uint
  maxReleases :: uint
  drainCycles :: uint
  pinManual :: bool \<comment> \<open>level read on D2 (pull-up: low means engaged)\<close>
  pinDigital :: bool \<comment> \<open>level on D3 (pull-down: high means engaged)\<close>
  pinPanel :: bool \<comment> \<open>level read on D18 (pull-up: low means engaged)\<close>
  digitalIsOutput :: bool \<comment> \<open>\<^verbatim>\<open>pinMode\<close> of D3 is \<^verbatim>\<open>OUTPUT\<close>\<close>
  valvePower :: int \<comment> \<open>duty last written to D5 with \<^verbatim>\<open>analogWrite\<close>\<close>
  LED :: bool
  TCNT1 :: "16 word"
  TCNT2 :: "8 word"
  TCNT4 :: "16 word"
  TCNT5 :: "16 word"
  TIMSK1 :: "8 word"
  TIMSK2 :: "8 word"
  TIMSK4 :: "8 word"
  TIMSK5 :: "8 word"

definition hitVoltage :: int where "hitVoltage = 255"
definition holdVoltage :: int where "holdVoltage = 85"
definition maxDrainCycles :: uint where "maxDrainCycles = 200"

text \<open>
  Bit positions and compare values. The bit numbers are those of \<^verbatim>\<open><avr/io.h>\<close> for the
  ATmega2560 (\<^verbatim>\<open>OCIEnA\<close> is bit 1 and \<^verbatim>\<open>OCIEnB\<close> is bit 2 of \<^verbatim>\<open>TIMSKn\<close>); the compare values
  are the ones \<^verbatim>\<open>setup()\<close> writes.
\<close>

definition OCIE1A :: nat where "OCIE1A = 1"
definition OCIE1B :: nat where "OCIE1B = 2"
definition OCIE2A :: nat where "OCIE2A = 1"
definition OCIE2B :: nat where "OCIE2B = 2"
definition OCIE4A :: nat where "OCIE4A = 1"
definition OCIE5A :: nat where "OCIE5A = 1"

definition OCR1A :: "16 word" where "OCR1A = 15624"
definition OCR1B :: "16 word" where "OCR1B = 15624"
definition OCR2A :: "8 word" where "OCR2A = 124"
definition OCR2B :: "8 word" where "OCR2B = 124"
definition OCR4A :: "16 word" where "OCR4A = 6249"
definition OCR5A :: "16 word" where "OCR5A = 249"

definition openTime :: "int list" where
  "openTime = [40, 60, 80, 100, 120, 140, 160, 180, 200, 220]"
definition numOpens :: "int list" where
  "numOpens = [63, 42, 31, 25, 21, 18, 16, 14, 13, 11]"
definition nOpenTimes :: nat where "nOpenTimes = 10"

text \<open>
  The state after reset and \<^verbatim>\<open>setup()\<close>: the globals hold their initialisers, the valve output
  and the LED are written low, the counters are reset, and no timer interrupt is enabled (the
  reset value of every \<^verbatim>\<open>TIMSKn\<close>, which \<^verbatim>\<open>setup()\<close> leaves alone). The three arguments are the
  levels found on the input pins.
\<close>

definition setup_state :: "bool \<Rightarrow> bool \<Rightarrow> bool \<Rightarrow> mcu" where
  "setup_state pm pd pp =
     \<lparr> manualTrigger = False, digitalTrigger = False, draining = False, valveOpen = False,
       inCalibration = False, sequenceComplete = False,
       tickCounter = 0, maxTicks = 0, releaseCount = 0, maxReleases = 0, drainCycles = 0,
       pinManual = pm, pinDigital = pd, pinPanel = pp, digitalIsOutput = False,
       valvePower = 0, LED = False,
       TCNT1 = 0, TCNT2 = 0, TCNT4 = 0, TCNT5 = 0,
       TIMSK1 = 0, TIMSK2 = 0, TIMSK4 = 0, TIMSK5 = 0 \<rparr>"

subsection \<open>Interrupt service routines\<close>

text \<open>
  The writes \<^verbatim>\<open>TIFRn = (1 << OCFnx)\<close> only clear a pending compare-match flag. Pending flags are
  not part of the state: a compare-match interrupt is an event of the environment (see
  \<open>step\<close> below), so these writes have no counterpart in the definitions.

  \<^verbatim>\<open>digitalWrite(__digitalTrigger, v)\<close> drives the level of D3 when the pin is an output.
  \<^verbatim>\<open>pinMode(__digitalTrigger, INPUT)\<close> releases the pin (Arduino's \<^verbatim>\<open>pinMode\<close> also switches
  the pull-up off), so a level the sketch was driving falls to the external pull-down; like
  every other change of D3 made inside an ISR, that edge raises \<^verbatim>\<open>INT5\<close>.
\<close>

definition digitalWrite_digitalTrigger :: "bool \<Rightarrow> mcu \<Rightarrow> mcu" where
  "digitalWrite_digitalTrigger v s = (if digitalIsOutput s then s\<lparr>pinDigital := v\<rparr> else s)"

definition pinMode_digitalTrigger :: "bool \<Rightarrow> mcu \<Rightarrow> mcu" where
  "pinMode_digitalTrigger out s =
     (if out then s\<lparr>digitalIsOutput := True\<rparr>
      else s\<lparr>pinDigital := (if digitalIsOutput s then False else pinDigital s),
             digitalIsOutput := False\<rparr>)"

definition ISR_INT3 :: "mcu \<Rightarrow> mcu" where
  "ISR_INT3 s = s\<lparr>TCNT2 := 0, TIMSK2 := TIMSK2 s OR push_bit OCIE2B 1\<rparr>"

definition ISR_INT4 :: "mcu \<Rightarrow> mcu" where
  "ISR_INT4 s = s\<lparr>TCNT2 := 0, TIMSK2 := TIMSK2 s OR push_bit OCIE2A 1\<rparr>"

definition ISR_INT5 :: "mcu \<Rightarrow> mcu" where
  "ISR_INT5 s =
     (if pinDigital s then
        (if \<not> digitalTrigger s then
           (let s1 = s\<lparr>digitalTrigger := True\<rparr> in
            if \<not> valveOpen s1 then
              s1\<lparr>valveOpen := True, valvePower := hitVoltage, LED := True,
                 TCNT4 := 0, TIMSK4 := TIMSK4 s1 OR push_bit OCIE4A 1\<rparr>
            else s1)
         else s)
      else
        (if digitalTrigger s then
           (let s1 = s\<lparr>digitalTrigger := False\<rparr> in
            if \<not> draining s1 \<and> \<not> manualTrigger s1 then
              s1\<lparr>valveOpen := False, valvePower := 0, LED := False\<rparr>
            else s1)
         else s))"

definition ISR_TIMER1_COMPA :: "mcu \<Rightarrow> mcu" where
  "ISR_TIMER1_COMPA s =
     (if draining s then
        (let s1 = s\<lparr>drainCycles := drainCycles s + 1\<rparr> in
         if drainCycles s1 > maxDrainCycles then
           (let s2 = s1\<lparr>TIMSK1 := TIMSK1 s1 AND push_bit OCIE1A 0, draining := False\<rparr> in
            if \<not> manualTrigger s2 \<and> \<not> digitalTrigger s2 then
              s2\<lparr>valveOpen := False, valvePower := 0, LED := False\<rparr>
            else s2)
         else s1)
      else s)"

definition ISR_TIMER1_COMPB :: "mcu \<Rightarrow> mcu" where
  "ISR_TIMER1_COMPB s =
     (let s1 = s\<lparr>releaseCount := releaseCount s + 1\<rparr> in
      if releaseCount s1 < maxReleases s1 then
        (let s2 = digitalWrite_digitalTrigger True
                    (pinMode_digitalTrigger True (s1\<lparr>tickCounter := 0\<rparr>))
         in s2\<lparr>TCNT5 := 0, TIMSK5 := TIMSK5 s2 OR push_bit OCIE5A 1\<rparr>)
      else
        pinMode_digitalTrigger False
          (s1\<lparr>TIMSK1 := TIMSK1 s1 AND push_bit OCIE1B 0, sequenceComplete := True\<rparr>))"

definition ISR_TIMER2_COMPA :: "mcu \<Rightarrow> mcu" where
  "ISR_TIMER2_COMPA s0 =
     (let s = s0\<lparr>TIMSK2 := TIMSK2 s0 AND push_bit OCIE2A 0\<rparr> in
      if \<not> pinManual s then
        (if \<not> manualTrigger s then
           (let s1 = s\<lparr>manualTrigger := True\<rparr> in
            if \<not> valveOpen s1 then
              s1\<lparr>valveOpen := True, valvePower := hitVoltage, LED := True,
                 TCNT4 := 0, TIMSK4 := TIMSK4 s1 OR push_bit OCIE4A 1\<rparr>
            else s1)
         else s)
      else
        (if manualTrigger s then
           (let s1 = s\<lparr>manualTrigger := False\<rparr> in
            if \<not> draining s1 \<and> \<not> digitalTrigger s1 then
              s1\<lparr>valveOpen := False, valvePower := 0, LED := False\<rparr>
            else s1)
         else s))"

definition ISR_TIMER2_COMPB :: "mcu \<Rightarrow> mcu" where
  "ISR_TIMER2_COMPB s0 =
     (let s = s0\<lparr>TIMSK2 := TIMSK2 s0 AND push_bit OCIE2B 0\<rparr> in
      if \<not> pinPanel s then
        (if \<not> draining s then
           (if \<not> valveOpen s then
              s\<lparr>draining := True, drainCycles := 0, valveOpen := True,
                valvePower := hitVoltage, LED := True,
                TCNT1 := 0, TIMSK1 := TIMSK1 s OR push_bit OCIE1A 1,
                TCNT4 := 0, TIMSK4 := TIMSK4 s OR push_bit OCIE4A 1\<rparr>
            else s)
         else
           (let s1 = s\<lparr>TIMSK1 := TIMSK1 s AND push_bit OCIE1A 0, draining := False\<rparr> in
            if \<not> manualTrigger s1 \<and> \<not> digitalTrigger s1 then
              s1\<lparr>valveOpen := False, valvePower := 0, LED := False\<rparr>
            else s1))
      else s)"

definition ISR_TIMER4_COMPA :: "mcu \<Rightarrow> mcu" where
  "ISR_TIMER4_COMPA s0 =
     (let s = s0\<lparr>TIMSK4 := TIMSK4 s0 AND push_bit OCIE4A 0\<rparr> in
      if valveOpen s then s\<lparr>valvePower := holdVoltage\<rparr> else s)"

text \<open>\<^verbatim>\<open>tickCounter++ > maxTicks\<close> compares the value before the increment.\<close>

definition ISR_TIMER5_COMPA :: "mcu \<Rightarrow> mcu" where
  "ISR_TIMER5_COMPA s =
     (let s1 = s\<lparr>tickCounter := tickCounter s + 1\<rparr> in
      if tickCounter s > maxTicks s then
        digitalWrite_digitalTrigger False (s1\<lparr>TIMSK5 := TIMSK5 s1 AND push_bit OCIE5A 0\<rparr>)
      else s1)"

subsection \<open>The main loop's part in flow calibration\<close>

text \<open>
  For trial \<open>j\<close> of a sequence, \<^verbatim>\<open>loop()\<close> loads the trial's parameters, resets timer 1 and
  enables \<^verbatim>\<open>TIMER1_COMPB\<close>; then it spins on \<^verbatim>\<open>sequenceComplete\<close>. The \<^verbatim>\<open>int\<close> table entries
  are converted to \<^verbatim>\<open>unsigned int\<close> by the assignments.
\<close>

definition loop_arm_trial :: "nat \<Rightarrow> mcu \<Rightarrow> mcu" where
  "loop_arm_trial j s =
     s\<lparr>maxTicks := word_of_int (openTime ! j), releaseCount := 0,
       maxReleases := word_of_int (numOpens ! j), sequenceComplete := False,
       TCNT1 := 0, TIMSK1 := TIMSK1 s OR push_bit OCIE1B 1\<rparr>"

subsection \<open>Events\<close>

text \<open>
  What can happen to the running sketch. A level change on D2 or D3 raises \<^verbatim>\<open>INT4\<close> or
  \<^verbatim>\<open>INT5\<close> (both are configured for any logic change), a falling edge on D18 raises \<^verbatim>\<open>INT3\<close>.
  A compare-match interrupt is served only while its enable bit is set. A timer's counter
  advances in CTC mode: it returns to zero after reaching \<^verbatim>\<open>OCRnA\<close>. When an ISR changes the
  level of D3 itself, the pending \<^verbatim>\<open>INT5\<close> is served as soon as that ISR returns.
\<close>

datatype timer = T1 | T2 | T4 | T5

datatype event =
    ManualPin bool
  | DigitalPin bool
  | PanelPin bool
  | Timer1A | Timer1B | Timer2A | Timer2B | Timer4A | Timer5A
  | Count timer
  | SetInCalibration bool
  | ArmTrial nat
  | LoopLED bool

definition then_INT5 :: "(mcu \<Rightarrow> mcu) \<Rightarrow> mcu \<Rightarrow> mcu" where
  "then_INT5 f s = (let s' = f s in if pinDigital s' \<noteq> pinDigital s then ISR_INT5 s' else s')"

definition count_up :: "timer \<Rightarrow> mcu \<Rightarrow> mcu" where
  "count_up t s =
     (case t of
        T1 \<Rightarrow> s\<lparr>TCNT1 := (if TCNT1 s = OCR1A then 0 else TCNT1 s + 1)\<rparr>
      | T2 \<Rightarrow> s\<lparr>TCNT2 := (if TCNT2 s = OCR2A then 0 else TCNT2 s + 1)\<rparr>
      | T4 \<Rightarrow> s\<lparr>TCNT4 := (if TCNT4 s = OCR4A then 0 else TCNT4 s + 1)\<rparr>
      | T5 \<Rightarrow> s\<lparr>TCNT5 := (if TCNT5 s = OCR5A then 0 else TCNT5 s + 1)\<rparr>)"

fun step :: "event \<Rightarrow> mcu \<Rightarrow> mcu" where
  "step (ManualPin b) s =
     (if b \<noteq> pinManual s then ISR_INT4 (s\<lparr>pinManual := b\<rparr>) else s)"
| "step (DigitalPin b) s =
     (if b \<noteq> pinDigital s then ISR_INT5 (s\<lparr>pinDigital := b\<rparr>) else s)"
| "step (PanelPin b) s =
     (if pinPanel s \<and> \<not> b then ISR_INT3 (s\<lparr>pinPanel := b\<rparr>) else s\<lparr>pinPanel := b\<rparr>)"
| "step Timer1A s = (if bit (TIMSK1 s) OCIE1A then ISR_TIMER1_COMPA s else s)"
| "step Timer1B s = (if bit (TIMSK1 s) OCIE1B then then_INT5 ISR_TIMER1_COMPB s else s)"
| "step Timer2A s = (if bit (TIMSK2 s) OCIE2A then ISR_TIMER2_COMPA s else s)"
| "step Timer2B s = (if bit (TIMSK2 s) OCIE2B then ISR_TIMER2_COMPB s else s)"
| "step Timer4A s = (if bit (TIMSK4 s) OCIE4A then ISR_TIMER4_COMPA s else s)"
| "step Timer5A s = (if bit (TIMSK5 s) OCIE5A then then_INT5 ISR_TIMER5_COMPA s else s)"
| "step (Count t) s = count_up t s"
| "step (SetInCalibration b) s = s\<lparr>inCalibration := b\<rparr>"
| "step (ArmTrial j) s = (if j < nOpenTimes then loop_arm_trial j s else s)"
| "step (LoopLED b) s = s\<lparr>LED := b\<rparr>"

fun run :: "event list \<Rightarrow> mcu \<Rightarrow> mcu" where
  "run [] s = s"
| "run (e # es) s = run es (step e s)"

text \<open>The state the sketch is in at power-up with all three inputs idle.\<close>

definition idle :: mcu where
  "idle = setup_state True False True"

subsection \<open>Invariants\<close>

text \<open>
  The valve is open exactly while some source holds it open, and the output is at the hit or
  the hold level while it is open and at zero while it is closed.
\<close>

definition arbitrated :: "mcu \<Rightarrow> bool" where
  "arbitrated s =
     (valveOpen s = (manualTrigger s \<or> digitalTrigger s \<or> draining s) \<and>
      (if valveOpen s then valvePower s = hitVoltage \<or> valvePower s = holdVoltage
       else valvePower s = 0))"

text \<open>
  What a step that clears a source flag does to the valve: it stays open exactly when another
  source is active, and then the output keeps its level.
\<close>

definition released :: "mcu \<Rightarrow> mcu \<Rightarrow> bool" where
  "released s s' =
    ((manualTrigger s \<and> \<not> manualTrigger s' \<longrightarrow>
        valveOpen s' = (digitalTrigger s \<or> draining s) \<and>
        (valveOpen s' \<longrightarrow> valvePower s' = valvePower s)) \<and>
     (digitalTrigger s \<and> \<not> digitalTrigger s' \<longrightarrow>
        valveOpen s' = (manualTrigger s \<or> draining s) \<and>
        (valveOpen s' \<longrightarrow> valvePower s' = valvePower s)) \<and>
     (draining s \<and> \<not> draining s' \<longrightarrow>
        valveOpen s' = (manualTrigger s \<or> digitalTrigger s) \<and>
        (valveOpen s' \<longrightarrow> valvePower s' = valvePower s)))"

text \<open>
  How a step may move the output: a valve that opens gets the hit level with the hold timer
  armed from zero, and the hold level is only ever entered from the hit level, by the hold
  timer's interrupt.
\<close>

definition staged :: "event \<Rightarrow> mcu \<Rightarrow> mcu \<Rightarrow> bool" where
  "staged e s s' =
     ((\<not> valveOpen s \<and> valveOpen s' \<longrightarrow>
         valvePower s' = hitVoltage \<and> bit (TIMSK4 s') OCIE4A \<and> TCNT4 s' = 0) \<and>
      (valvePower s' = holdVoltage \<and> valvePower s \<noteq> holdVoltage \<longrightarrow>
         valvePower s = hitVoltage \<and> e = Timer4A))"

subsection \<open>Compare channels\<close>

text \<open>
  The sketch uses six compare-match interrupts as its timers. A channel is armed while its
  enable bit is set, and its deadline is the number of counts its timer's counter still has to
  make to reach the channel's compare value. Channels A and B of one timer share the counter.
\<close>

datatype channel = COMP1A | COMP1B | COMP2A | COMP2B | COMP4A | COMP5A

fun armed :: "channel \<Rightarrow> mcu \<Rightarrow> bool" where
  "armed COMP1A s = bit (TIMSK1 s) OCIE1A"
| "armed COMP1B s = bit (TIMSK1 s) OCIE1B"
| "armed COMP2A s = bit (TIMSK2 s) OCIE2A"
| "armed COMP2B s = bit (TIMSK2 s) OCIE2B"
| "armed COMP4A s = bit (TIMSK4 s) OCIE4A"
| "armed COMP5A s = bit (TIMSK5 s) OCIE5A"

fun ticks_to_match :: "channel \<Rightarrow> mcu \<Rightarrow> nat" where
  "ticks_to_match COMP1A s = unat (OCR1A - TCNT1 s)"
| "ticks_to_match COMP1B s = unat (OCR1B - TCNT1 s)"
| "ticks_to_match COMP2A s = unat (OCR2A - TCNT2 s)"
| "ticks_to_match COMP2B s = unat (OCR2B - TCNT2 s)"
| "ticks_to_match COMP4A s = unat (OCR4A - TCNT4 s)"
| "ticks_to_match COMP5A s = unat (OCR5A - TCNT5 s)"

text \<open>
  The synthetic trigger of a calibration trial is observed on D3: an assertion is a step that
  takes the pin from low to high, a deassertion one that takes it from high to low.
\<close>

fun assertions :: "event list \<Rightarrow> mcu \<Rightarrow> nat" where
  "assertions [] s = 0"
| "assertions (e # es) s =
     (if \<not> pinDigital s \<and> pinDigital (step e s) then 1 else 0) + assertions es (step e s)"

fun deassertions :: "event list \<Rightarrow> mcu \<Rightarrow> nat" where
  "deassertions [] s = 0"
| "deassertions (e # es) s =
     (if pinDigital s \<and> \<not> pinDigital (step e s) then 1 else 0) + deassertions es (step e s)"

text \<open>
  One period of the release clock during a trial: \<^verbatim>\<open>TIMER1_COMPB\<close> is served, then the 1 ms
  clock of timer 5 ticks \<open>n\<close> times before the next release is due.
\<close>

definition release_period :: "nat \<Rightarrow> event list" where
  "release_period n = Timer1B # replicate n Timer5A"

text \<open>
  One pass over a run that keeps the state and both edge counts, and the part of its result
  that a trial reports.
\<close>

definition tally :: "mcu \<Rightarrow> mcu \<Rightarrow> nat \<Rightarrow> nat \<Rightarrow> mcu \<times> nat \<times> nat" where
  "tally s s' a d =
     (s', (if \<not> pinDigital s \<and> pinDigital s' then Suc a else a),
          (if pinDigital s \<and> \<not> pinDigital s' then Suc d else d))"

fun observe :: "event list \<Rightarrow> mcu \<times> nat \<times> nat \<Rightarrow> mcu \<times> nat \<times> nat" where
  "observe [] x = x"
| "observe (e # es) (s, a, d) = observe es (tally s (step e s) a d)"

fun verdict :: "mcu \<times> nat \<times> nat \<Rightarrow> bool \<times> uint \<times> nat \<times> nat" where
  "verdict (s, a, d) = (sequenceComplete s, releaseCount s, a, d)"

section \<open>Properties\<close>

subsection \<open>Arbitration\<close>

lemma run_append: "run (es @ fs) s = run fs (run es s)"
  by (induction es arbitrary: s) simp_all

lemma arbitrated_setup: "arbitrated (setup_state pm pd pp)"
  by (simp add: arbitrated_def setup_state_def)

lemma arbitrated_INT5: "arbitrated s \<Longrightarrow> arbitrated (ISR_INT5 s)"
  by (auto simp: arbitrated_def ISR_INT5_def Let_def)

lemma arbitrated_TIMER1_COMPA: "arbitrated s \<Longrightarrow> arbitrated (ISR_TIMER1_COMPA s)"
  by (auto simp: arbitrated_def ISR_TIMER1_COMPA_def Let_def)

lemma arbitrated_TIMER2_COMPA: "arbitrated s \<Longrightarrow> arbitrated (ISR_TIMER2_COMPA s)"
  by (auto simp: arbitrated_def ISR_TIMER2_COMPA_def Let_def)

lemma arbitrated_TIMER2_COMPB: "arbitrated s \<Longrightarrow> arbitrated (ISR_TIMER2_COMPB s)"
  by (auto simp: arbitrated_def ISR_TIMER2_COMPB_def Let_def)

lemma arbitrated_TIMER4_COMPA: "arbitrated s \<Longrightarrow> arbitrated (ISR_TIMER4_COMPA s)"
  by (auto simp: arbitrated_def ISR_TIMER4_COMPA_def Let_def)

lemma arbitrated_TIMER1_COMPB: "arbitrated s \<Longrightarrow> arbitrated (ISR_TIMER1_COMPB s)"
  by (auto simp: arbitrated_def ISR_TIMER1_COMPB_def digitalWrite_digitalTrigger_def
      pinMode_digitalTrigger_def Let_def)

lemma arbitrated_TIMER5_COMPA: "arbitrated s \<Longrightarrow> arbitrated (ISR_TIMER5_COMPA s)"
  by (auto simp: arbitrated_def ISR_TIMER5_COMPA_def digitalWrite_digitalTrigger_def Let_def)

lemma arbitrated_then_INT5:
  "(\<And>s. arbitrated s \<Longrightarrow> arbitrated (f s)) \<Longrightarrow> arbitrated s \<Longrightarrow> arbitrated (then_INT5 f s)"
  by (simp add: then_INT5_def Let_def arbitrated_INT5)

lemma arbitrated_pinDigital: "arbitrated (s\<lparr>pinDigital := b\<rparr>) = arbitrated s"
  by (simp add: arbitrated_def)

lemma arbitrated_step: "arbitrated s \<Longrightarrow> arbitrated (step e s)"
proof (cases e)
  case (ManualPin b)
  then show ?thesis if "arbitrated s" using that
    by (simp add: ISR_INT4_def arbitrated_def)
next
  case (DigitalPin b)
  then show ?thesis if "arbitrated s" using that
    by (simp add: arbitrated_INT5 arbitrated_pinDigital)
next
  case (PanelPin b)
  then show ?thesis if "arbitrated s" using that
    by (simp add: ISR_INT3_def arbitrated_def)
next
  case (Count t)
  then show ?thesis if "arbitrated s" using that
    by (cases t) (simp_all add: count_up_def arbitrated_def)
next
  case (ArmTrial j)
  then show ?thesis if "arbitrated s" using that
    by (simp add: loop_arm_trial_def arbitrated_def)
next
  case (SetInCalibration b)
  then show ?thesis if "arbitrated s" using that
    by (simp add: arbitrated_def)
next
  case (LoopLED b)
  then show ?thesis if "arbitrated s" using that
    by (simp add: arbitrated_def)
qed (simp_all add: arbitrated_TIMER1_COMPA arbitrated_TIMER1_COMPB arbitrated_TIMER2_COMPA
      arbitrated_TIMER2_COMPB arbitrated_TIMER4_COMPA arbitrated_TIMER5_COMPA arbitrated_then_INT5)

lemma arbitrated_run: "arbitrated s \<Longrightarrow> arbitrated (run es s)"
  by (induction es arbitrary: s) (simp_all add: arbitrated_step)

text \<open>
  Claim C1. After every event of any run from power-up (a debounced manual settle, a level
  decode of the digital trigger, a panel-button settle, a drain-watchdog tick, or anything else
  that can happen), the valve is closed, that is \<open>valveOpen\<close> is false and the output is
  0, if and only if none of \<open>manualTrigger\<close>, \<open>digitalTrigger\<close> and \<open>draining\<close> is set.
\<close>

theorem valve_closed_iff_no_source_active:
  "(\<not> valveOpen (run es (setup_state pm pd pp)) \<and> valvePower (run es (setup_state pm pd pp)) = 0)
   = (\<not> manualTrigger (run es (setup_state pm pd pp)) \<and>
      \<not> digitalTrigger (run es (setup_state pm pd pp)) \<and>
      \<not> draining (run es (setup_state pm pd pp)))"
  using arbitrated_run [OF arbitrated_setup, of es pm pd pp]
  by (auto simp: arbitrated_def hitVoltage_def holdVoltage_def split: if_splits)

subsection \<open>Releasing a source\<close>

lemma released_INT5: "arbitrated s \<Longrightarrow> released s (ISR_INT5 (s\<lparr>pinDigital := b\<rparr>))"
  by (simp add: released_def arbitrated_def ISR_INT5_def Let_def)

lemma released_TIMER1_COMPA: "arbitrated s \<Longrightarrow> released s (ISR_TIMER1_COMPA s)"
  by (simp add: released_def arbitrated_def ISR_TIMER1_COMPA_def Let_def)

lemma released_TIMER2_COMPA: "arbitrated s \<Longrightarrow> released s (ISR_TIMER2_COMPA s)"
  by (simp add: released_def arbitrated_def ISR_TIMER2_COMPA_def Let_def)

lemma released_TIMER2_COMPB: "arbitrated s \<Longrightarrow> released s (ISR_TIMER2_COMPB s)"
  by (simp add: released_def arbitrated_def ISR_TIMER2_COMPB_def Let_def)

lemma released_TIMER4_COMPA: "arbitrated s \<Longrightarrow> released s (ISR_TIMER4_COMPA s)"
  by (simp add: released_def arbitrated_def ISR_TIMER4_COMPA_def Let_def)

lemma released_TIMER1_COMPB: "arbitrated s \<Longrightarrow> released s (then_INT5 ISR_TIMER1_COMPB s)"
  by (simp add: released_def arbitrated_def ISR_TIMER1_COMPB_def ISR_INT5_def then_INT5_def
      digitalWrite_digitalTrigger_def pinMode_digitalTrigger_def Let_def)

lemma released_TIMER5_COMPA: "arbitrated s \<Longrightarrow> released s (then_INT5 ISR_TIMER5_COMPA s)"
  by (simp add: released_def arbitrated_def ISR_TIMER5_COMPA_def ISR_INT5_def then_INT5_def
      digitalWrite_digitalTrigger_def Let_def)

lemma released_step: "arbitrated s \<Longrightarrow> released s (step e s)"
proof (cases e)
  case (Count t)
  then show ?thesis by (cases t) (simp_all add: count_up_def released_def)
qed (simp_all add: released_INT5 released_TIMER1_COMPA released_TIMER1_COMPB released_TIMER2_COMPA
      released_TIMER2_COMPB released_TIMER4_COMPA released_TIMER5_COMPA,
      simp_all add: released_def ISR_INT3_def ISR_INT4_def loop_arm_trial_def)

text \<open>
  Claim C5. In every state reached from power-up, a step that deactivates one source (its flag
  goes from true to false) closes the valve, with \<open>valveOpen\<close> false and the output at
  zero, if and only if the other two flags are false; if another flag is still set the valve
  stays open and the output keeps its level, whether that is the hit or the hold level.
\<close>

theorem release_closes_iff_others_inactive:
  assumes "s = run es (setup_state pm pd pp)" and "s' = step e s"
  shows "(manualTrigger s \<and> \<not> manualTrigger s' \<longrightarrow>
            ((\<not> valveOpen s' \<and> valvePower s' = 0) = (\<not> digitalTrigger s \<and> \<not> draining s)) \<and>
            (digitalTrigger s \<or> draining s \<longrightarrow> valveOpen s' \<and> valvePower s' = valvePower s)) \<and>
         (digitalTrigger s \<and> \<not> digitalTrigger s' \<longrightarrow>
            ((\<not> valveOpen s' \<and> valvePower s' = 0) = (\<not> manualTrigger s \<and> \<not> draining s)) \<and>
            (manualTrigger s \<or> draining s \<longrightarrow> valveOpen s' \<and> valvePower s' = valvePower s)) \<and>
         (draining s \<and> \<not> draining s' \<longrightarrow>
            ((\<not> valveOpen s' \<and> valvePower s' = 0) = (\<not> manualTrigger s \<and> \<not> digitalTrigger s)) \<and>
            (manualTrigger s \<or> digitalTrigger s \<longrightarrow> valveOpen s' \<and> valvePower s' = valvePower s))"
proof -
  have a: "arbitrated s"
    unfolding assms by (rule arbitrated_run [OF arbitrated_setup])
  then have a': "arbitrated s'"
    unfolding assms(2) by (rule arbitrated_step)
  have closed: "\<not> valveOpen s' \<Longrightarrow> valvePower s' = 0"
    using a' by (simp add: arbitrated_def)
  have r: "released s s'"
    unfolding assms(2) using a by (rule released_step)
  show ?thesis
    using r closed unfolding released_def by blast
qed

theorem release_closes_iff_others_inactive_witness:
  "(digitalTrigger (run [DigitalPin True, Timer4A] idle) \<and>
    valvePower (run [DigitalPin True, Timer4A] idle) = holdVoltage \<and>
    \<not> digitalTrigger (step (DigitalPin False) (run [DigitalPin True, Timer4A] idle)) \<and>
    \<not> valveOpen (step (DigitalPin False) (run [DigitalPin True, Timer4A] idle)) \<and>
    valvePower (step (DigitalPin False) (run [DigitalPin True, Timer4A] idle)) = 0) \<and>
   (manualTrigger (run [PanelPin False, Timer2B, ManualPin False, Timer2A, ManualPin True] idle) \<and>
    draining (run [PanelPin False, Timer2B, ManualPin False, Timer2A, ManualPin True] idle) \<and>
    \<not> manualTrigger
        (step Timer2A (run [PanelPin False, Timer2B, ManualPin False, Timer2A, ManualPin True] idle)) \<and>
    valveOpen
        (step Timer2A (run [PanelPin False, Timer2B, ManualPin False, Timer2A, ManualPin True] idle)) \<and>
    valvePower
        (step Timer2A (run [PanelPin False, Timer2B, ManualPin False, Timer2A, ManualPin True] idle))
      = valvePower (run [PanelPin False, Timer2B, ManualPin False, Timer2A, ManualPin True] idle)) \<and>
   (draining (run [PanelPin False, Timer2B, PanelPin True, PanelPin False] idle) \<and>
    \<not> draining (step Timer2B (run [PanelPin False, Timer2B, PanelPin True, PanelPin False] idle)) \<and>
    \<not> valveOpen (step Timer2B (run [PanelPin False, Timer2B, PanelPin True, PanelPin False] idle)) \<and>
    valvePower (step Timer2B (run [PanelPin False, Timer2B, PanelPin True, PanelPin False] idle)) = 0)"
proof -
  have d: "digitalTrigger (run [DigitalPin True, Timer4A] idle) \<and>
      valvePower (run [DigitalPin True, Timer4A] idle) = holdVoltage \<and>
      \<not> digitalTrigger (step (DigitalPin False) (run [DigitalPin True, Timer4A] idle)) \<and>
      \<not> manualTrigger (run [DigitalPin True, Timer4A] idle) \<and>
      \<not> draining (run [DigitalPin True, Timer4A] idle)"
    by code_simp
  have m: "manualTrigger (run [PanelPin False, Timer2B, ManualPin False, Timer2A, ManualPin True] idle) \<and>
      draining (run [PanelPin False, Timer2B, ManualPin False, Timer2A, ManualPin True] idle) \<and>
      \<not> manualTrigger
        (step Timer2A (run [PanelPin False, Timer2B, ManualPin False, Timer2A, ManualPin True] idle))"
    by code_simp
  have p: "draining (run [PanelPin False, Timer2B, PanelPin True, PanelPin False] idle) \<and>
      \<not> draining (step Timer2B (run [PanelPin False, Timer2B, PanelPin True, PanelPin False] idle)) \<and>
      \<not> manualTrigger (run [PanelPin False, Timer2B, PanelPin True, PanelPin False] idle) \<and>
      \<not> digitalTrigger (run [PanelPin False, Timer2B, PanelPin True, PanelPin False] idle)"
    by code_simp
  have i: "run es idle = run es (setup_state True False True)" for es
    by (simp only: idle_def)
  note t1 = release_closes_iff_others_inactive [OF i refl, of "[DigitalPin True, Timer4A]"
        "DigitalPin False"]
  note t2 = release_closes_iff_others_inactive [OF i refl,
        of "[PanelPin False, Timer2B, ManualPin False, Timer2A, ManualPin True]" Timer2A]
  note t3 = release_closes_iff_others_inactive [OF i refl,
        of "[PanelPin False, Timer2B, PanelPin True, PanelPin False]" Timer2B]
  from d t1 have g1: "\<not> valveOpen (step (DigitalPin False) (run [DigitalPin True, Timer4A] idle)) \<and>
    valvePower (step (DigitalPin False) (run [DigitalPin True, Timer4A] idle)) = 0"
    by (simp del: run.simps step.simps)
  from m t2 have g2: "valveOpen
        (step Timer2A (run [PanelPin False, Timer2B, ManualPin False, Timer2A, ManualPin True] idle)) \<and>
    valvePower
        (step Timer2A (run [PanelPin False, Timer2B, ManualPin False, Timer2A, ManualPin True] idle))
      = valvePower (run [PanelPin False, Timer2B, ManualPin False, Timer2A, ManualPin True] idle)"
    by (simp del: run.simps step.simps)
  from p t3 have g3: 
    "\<not> valveOpen (step Timer2B (run [PanelPin False, Timer2B, PanelPin True, PanelPin False] idle)) \<and>
    valvePower (step Timer2B (run [PanelPin False, Timer2B, PanelPin True, PanelPin False] idle)) = 0"
    by (simp del: run.simps step.simps)
  from d m p g1 g2 g3 show ?thesis
    by (simp del: run.simps step.simps)
qed

subsection \<open>Hit and hold\<close>

lemma bit_OCIE4A: "bit (w OR 2 ^ OCIE4A :: 8 word) OCIE4A"
  by (simp add: OCIE4A_def bit_simps)

lemma staged_INT5: "arbitrated s \<Longrightarrow> staged e s (ISR_INT5 (s\<lparr>pinDigital := b\<rparr>))"
  by (simp add: staged_def arbitrated_def ISR_INT5_def Let_def bit_OCIE4A hitVoltage_def
      holdVoltage_def)

lemma staged_TIMER1_COMPA: "arbitrated s \<Longrightarrow> staged e s (ISR_TIMER1_COMPA s)"
  by (simp add: staged_def arbitrated_def ISR_TIMER1_COMPA_def Let_def hitVoltage_def
      holdVoltage_def)

lemma staged_TIMER2_COMPA: "arbitrated s \<Longrightarrow> staged e s (ISR_TIMER2_COMPA s)"
  by (simp add: staged_def arbitrated_def ISR_TIMER2_COMPA_def Let_def bit_OCIE4A hitVoltage_def
      holdVoltage_def)

lemma staged_TIMER2_COMPB: "arbitrated s \<Longrightarrow> staged e s (ISR_TIMER2_COMPB s)"
  by (simp add: staged_def arbitrated_def ISR_TIMER2_COMPB_def Let_def bit_OCIE4A hitVoltage_def
      holdVoltage_def)

lemma staged_TIMER4_COMPA: "arbitrated s \<Longrightarrow> staged Timer4A s (ISR_TIMER4_COMPA s)"
  by (auto simp: staged_def arbitrated_def ISR_TIMER4_COMPA_def Let_def)

lemma staged_TIMER1_COMPB: "arbitrated s \<Longrightarrow> staged e s (then_INT5 ISR_TIMER1_COMPB s)"
  by (simp add: staged_def arbitrated_def ISR_TIMER1_COMPB_def ISR_INT5_def then_INT5_def
      digitalWrite_digitalTrigger_def pinMode_digitalTrigger_def Let_def bit_OCIE4A hitVoltage_def holdVoltage_def)

lemma staged_TIMER5_COMPA: "arbitrated s \<Longrightarrow> staged e s (then_INT5 ISR_TIMER5_COMPA s)"
  by (simp add: staged_def arbitrated_def ISR_TIMER5_COMPA_def ISR_INT5_def then_INT5_def
      digitalWrite_digitalTrigger_def Let_def bit_OCIE4A hitVoltage_def holdVoltage_def)

lemma staged_step: "arbitrated s \<Longrightarrow> staged e s (step e s)"
proof (cases e)
  case (Count t)
  then show ?thesis by (cases t) (simp_all add: count_up_def staged_def)
qed (simp_all add: staged_INT5 staged_TIMER1_COMPA staged_TIMER1_COMPB staged_TIMER2_COMPA
      staged_TIMER2_COMPB staged_TIMER4_COMPA staged_TIMER5_COMPA,
      simp_all add: staged_def ISR_INT3_def ISR_INT4_def loop_arm_trial_def)

text \<open>
  Claim C6. In every state reached from power-up: a step that opens the closed valve drives
  the output at \<open>hitVoltage\<close> and arms the hold timer (interrupt enabled, counter at zero);
  when the hold timer's interrupt is served it disarms itself and lowers the output to
  \<open>holdVoltage\<close> if and only if the valve is open at that time, and leaves the output alone
  if the valve has closed meanwhile; and the output only ever enters the hold level from the
  hit level, through that interrupt.
\<close>

theorem hit_then_hold:
  assumes "s = run es (setup_state pm pd pp)" and "s' = step e s"
  shows "(\<not> valveOpen s \<and> valveOpen s' \<longrightarrow>
            valvePower s' = hitVoltage \<and> bit (TIMSK4 s') OCIE4A \<and> TCNT4 s' = 0) \<and>
         (e = Timer4A \<and> bit (TIMSK4 s) OCIE4A \<longrightarrow>
            (valvePower s' = holdVoltage) = valveOpen s \<and>
            (\<not> valveOpen s \<longrightarrow> valvePower s' = valvePower s) \<and>
            \<not> bit (TIMSK4 s') OCIE4A) \<and>
         (valvePower s' = holdVoltage \<and> valvePower s \<noteq> holdVoltage \<longrightarrow>
            valvePower s = hitVoltage \<and> e = Timer4A)"
proof -
  have a: "arbitrated s"
    unfolding assms by (rule arbitrated_run [OF arbitrated_setup])
  then have "staged e s s'"
    unfolding assms(2) by (rule staged_step)
  then have outer: "(\<not> valveOpen s \<and> valveOpen s' \<longrightarrow>
            valvePower s' = hitVoltage \<and> bit (TIMSK4 s') OCIE4A \<and> TCNT4 s' = 0) \<and>
         (valvePower s' = holdVoltage \<and> valvePower s \<noteq> holdVoltage \<longrightarrow>
            valvePower s = hitVoltage \<and> e = Timer4A)"
    by (simp add: staged_def)
  have closed: "\<not> valveOpen s \<Longrightarrow> valvePower s = 0"
    using a by (simp add: arbitrated_def)
  have fire: "e = Timer4A \<and> bit (TIMSK4 s) OCIE4A \<longrightarrow>
            (valvePower s' = holdVoltage) = valveOpen s \<and>
            (\<not> valveOpen s \<longrightarrow> valvePower s' = valvePower s) \<and>
            \<not> bit (TIMSK4 s') OCIE4A"
    using closed unfolding assms(2)
    by (auto simp: ISR_TIMER4_COMPA_def Let_def holdVoltage_def)
  from outer fire show ?thesis by blast
qed

theorem hit_then_hold_witness:
  "(\<not> valveOpen (run [ManualPin False] idle) \<and>
    valveOpen (step Timer2A (run [ManualPin False] idle)) \<and>
    valvePower (step Timer2A (run [ManualPin False] idle)) = hitVoltage \<and>
    bit (TIMSK4 (step Timer2A (run [ManualPin False] idle))) OCIE4A \<and>
    TCNT4 (step Timer2A (run [ManualPin False] idle)) = 0) \<and>
   (bit (TIMSK4 (run [ManualPin False, Timer2A] idle)) OCIE4A \<and>
    valveOpen (run [ManualPin False, Timer2A] idle) \<and>
    valvePower (run [ManualPin False, Timer2A] idle) = hitVoltage \<and>
    valvePower (step Timer4A (run [ManualPin False, Timer2A] idle)) = holdVoltage) \<and>
   (bit (TIMSK4 (run [DigitalPin True, DigitalPin False] idle)) OCIE4A \<and>
    \<not> valveOpen (run [DigitalPin True, DigitalPin False] idle) \<and>
    valvePower (step Timer4A (run [DigitalPin True, DigitalPin False] idle))
      = valvePower (run [DigitalPin True, DigitalPin False] idle) \<and>
    \<not> bit (TIMSK4 (step Timer4A (run [DigitalPin True, DigitalPin False] idle))) OCIE4A)"
proof -
  have i: "run es idle = run es (setup_state True False True)" for es
    by (simp only: idle_def)
  note t1 = hit_then_hold [OF i refl, of "[ManualPin False]" Timer2A]
  note t2 = hit_then_hold [OF i refl, of "[ManualPin False, Timer2A]" Timer4A]
  note t3 = hit_then_hold [OF i refl, of "[DigitalPin True, DigitalPin False]" Timer4A]
  have h1: "\<not> valveOpen (run [ManualPin False] idle) \<and>
      valveOpen (step Timer2A (run [ManualPin False] idle))"
    by code_simp
  have h2: "bit (TIMSK4 (run [ManualPin False, Timer2A] idle)) OCIE4A \<and>
      valveOpen (run [ManualPin False, Timer2A] idle) \<and>
      valvePower (run [ManualPin False, Timer2A] idle) = hitVoltage"
    by code_simp
  have h3: "bit (TIMSK4 (run [DigitalPin True, DigitalPin False] idle)) OCIE4A \<and>
      \<not> valveOpen (run [DigitalPin True, DigitalPin False] idle)"
    by code_simp
  from h1 t1 have g1: "valvePower (step Timer2A (run [ManualPin False] idle)) = hitVoltage \<and>
      bit (TIMSK4 (step Timer2A (run [ManualPin False] idle))) OCIE4A \<and>
      TCNT4 (step Timer2A (run [ManualPin False] idle)) = 0"
    by (simp del: run.simps step.simps)
  from h2 t2 have g2:
    "valvePower (step Timer4A (run [ManualPin False, Timer2A] idle)) = holdVoltage"
    by (simp del: run.simps step.simps)
  from h3 t3 have g3: "valvePower (step Timer4A (run [DigitalPin True, DigitalPin False] idle))
      = valvePower (run [DigitalPin True, DigitalPin False] idle) \<and>
    \<not> bit (TIMSK4 (step Timer4A (run [DigitalPin True, DigitalPin False] idle))) OCIE4A"
    by (simp del: run.simps step.simps)
  from h1 h2 h3 g1 g2 g3 show ?thesis
    by (simp del: run.simps step.simps)
qed

subsection \<open>Activating a source while the valve is open\<close>

text \<open>
  Claim C7, as the code has it. With the valve already open, a manual settle that finds the
  button engaged and a level decode that finds the digital trigger high leave the output level
  alone and leave the source's flag set. A panel-button settle that finds the button engaged
  while the valve is open and no drain is running changes neither the output nor the
  \<open>draining\<close> flag: a drain can only be started while the valve is closed.
\<close>

theorem activation_while_open:
  assumes "valveOpen s"
  shows "(\<not> pinManual s \<longrightarrow>
            manualTrigger (ISR_TIMER2_COMPA s) \<and> valveOpen (ISR_TIMER2_COMPA s) \<and>
            valvePower (ISR_TIMER2_COMPA s) = valvePower s) \<and>
         (pinDigital s \<longrightarrow>
            digitalTrigger (ISR_INT5 s) \<and> valveOpen (ISR_INT5 s) \<and>
            valvePower (ISR_INT5 s) = valvePower s) \<and>
         (\<not> pinPanel s \<and> \<not> draining s \<longrightarrow>
            \<not> draining (ISR_TIMER2_COMPB s) \<and> valveOpen (ISR_TIMER2_COMPB s) \<and>
            valvePower (ISR_TIMER2_COMPB s) = valvePower s)"
  using assms by (simp add: ISR_TIMER2_COMPA_def ISR_INT5_def ISR_TIMER2_COMPB_def Let_def)

theorem activation_while_open_witness:
  "valveOpen (run [DigitalPin True, ManualPin False, PanelPin False] idle) \<and>
   \<not> pinManual (run [DigitalPin True, ManualPin False, PanelPin False] idle) \<and>
   pinDigital (run [DigitalPin True, ManualPin False, PanelPin False] idle) \<and>
   \<not> pinPanel (run [DigitalPin True, ManualPin False, PanelPin False] idle) \<and>
   \<not> draining (run [DigitalPin True, ManualPin False, PanelPin False] idle) \<and>
   manualTrigger (ISR_TIMER2_COMPA (run [DigitalPin True, ManualPin False, PanelPin False] idle)) \<and>
   valvePower (ISR_TIMER2_COMPA (run [DigitalPin True, ManualPin False, PanelPin False] idle))
     = valvePower (run [DigitalPin True, ManualPin False, PanelPin False] idle) \<and>
   digitalTrigger (ISR_INT5 (run [DigitalPin True, ManualPin False, PanelPin False] idle)) \<and>
   valvePower (ISR_INT5 (run [DigitalPin True, ManualPin False, PanelPin False] idle))
     = valvePower (run [DigitalPin True, ManualPin False, PanelPin False] idle) \<and>
   \<not> draining (ISR_TIMER2_COMPB (run [DigitalPin True, ManualPin False, PanelPin False] idle)) \<and>
   valvePower (ISR_TIMER2_COMPB (run [DigitalPin True, ManualPin False, PanelPin False] idle))
     = valvePower (run [DigitalPin True, ManualPin False, PanelPin False] idle)"
proof -
  have h: "valveOpen (run [DigitalPin True, ManualPin False, PanelPin False] idle) \<and>
      \<not> pinManual (run [DigitalPin True, ManualPin False, PanelPin False] idle) \<and>
      pinDigital (run [DigitalPin True, ManualPin False, PanelPin False] idle) \<and>
      \<not> pinPanel (run [DigitalPin True, ManualPin False, PanelPin False] idle) \<and>
      \<not> draining (run [DigitalPin True, ManualPin False, PanelPin False] idle)"
    by code_simp
  then have o: "valveOpen (run [DigitalPin True, ManualPin False, PanelPin False] idle)"
    by (rule conjunct1)
  from h activation_while_open [OF o] show ?thesis
    by (simp del: run.simps)
qed

text \<open>
  The claim as stated fails for the drain: with the valve held open by the manual trigger, a
  settled panel-button press does not set \<open>draining\<close>.
\<close>

theorem panel_press_while_open_counterexample:
  "valveOpen (run [ManualPin False, Timer2A, PanelPin False] idle) \<and>
   \<not> pinPanel (run [ManualPin False, Timer2A, PanelPin False] idle) \<and>
   bit (TIMSK2 (run [ManualPin False, Timer2A, PanelPin False] idle)) OCIE2B \<and>
   \<not> draining (step Timer2B (run [ManualPin False, Timer2A, PanelPin False] idle))"
  by code_simp

subsection \<open>The calibration flag\<close>

text \<open>
  Claim C10. Neither the handling of the manual trigger (the pin-change interrupt and the
  debounce interrupt) nor the handling of the digital trigger reads \<open>inCalibration\<close>: started
  from two states that differ only in that flag, each of these steps ends in two states that
  differ only in that flag, so flags and valve output are updated alike.
\<close>

theorem triggers_ignore_inCalibration:
  "step (ManualPin x) (s\<lparr>inCalibration := b\<rparr>) = (step (ManualPin x) s)\<lparr>inCalibration := b\<rparr> \<and>
   step Timer2A (s\<lparr>inCalibration := b\<rparr>) = (step Timer2A s)\<lparr>inCalibration := b\<rparr> \<and>
   step (DigitalPin x) (s\<lparr>inCalibration := b\<rparr>) = (step (DigitalPin x) s)\<lparr>inCalibration := b\<rparr> \<and>
   ISR_INT4 (s\<lparr>inCalibration := b\<rparr>) = (ISR_INT4 s)\<lparr>inCalibration := b\<rparr> \<and>
   ISR_TIMER2_COMPA (s\<lparr>inCalibration := b\<rparr>) = (ISR_TIMER2_COMPA s)\<lparr>inCalibration := b\<rparr> \<and>
   ISR_INT5 (s\<lparr>inCalibration := b\<rparr>) = (ISR_INT5 s)\<lparr>inCalibration := b\<rparr>"
  by (simp add: ISR_INT4_def ISR_TIMER2_COMPA_def ISR_INT5_def Let_def)

subsection \<open>The drain counter\<close>

text \<open>
  Claim C8, as the code has it. The drain-cycle counter is reset to zero by the step that
  starts a drain (\<open>draining\<close> goes from false to true), not by the one that ends it. A step
  that ends a drain is either the panel-button settle, which leaves the counter at the value
  it has reached, or the watchdog tick, which leaves it at the incremented value that exceeded
  \<open>maxDrainCycles\<close>.
\<close>

theorem drainCycles_reset_on_start:
  "(\<not> draining s \<and> draining (step e s) \<longrightarrow> e = Timer2B \<and> drainCycles (step e s) = 0) \<and>
   (draining s \<and> \<not> draining (step e s) \<longrightarrow>
      e = Timer2B \<and> drainCycles (step e s) = drainCycles s \<or>
      e = Timer1A \<and> drainCycles (step e s) = drainCycles s + 1 \<and>
        drainCycles (step e s) > maxDrainCycles)"
proof (cases e)
  case (Count t)
  then show ?thesis by (cases t) (simp_all add: count_up_def)
qed (simp_all add: ISR_INT3_def ISR_INT4_def ISR_INT5_def ISR_TIMER1_COMPA_def
      ISR_TIMER1_COMPB_def ISR_TIMER2_COMPA_def ISR_TIMER2_COMPB_def ISR_TIMER4_COMPA_def
      ISR_TIMER5_COMPA_def then_INT5_def digitalWrite_digitalTrigger_def
      pinMode_digitalTrigger_def loop_arm_trial_def Let_def)

theorem drainCycles_reset_on_start_witness:
  "(\<not> draining (run [PanelPin False] idle) \<and>
    draining (step Timer2B (run [PanelPin False] idle)) \<and>
    drainCycles (step Timer2B (run [PanelPin False] idle)) = 0) \<and>
   (draining (run [PanelPin False, Timer2B, Timer1A, Timer1A, PanelPin True, PanelPin False] idle) \<and>
    \<not> draining
      (step Timer2B
        (run [PanelPin False, Timer2B, Timer1A, Timer1A, PanelPin True, PanelPin False] idle)) \<and>
    drainCycles
      (step Timer2B
        (run [PanelPin False, Timer2B, Timer1A, Timer1A, PanelPin True, PanelPin False] idle))
      = drainCycles
         (run [PanelPin False, Timer2B, Timer1A, Timer1A, PanelPin True, PanelPin False] idle))"
proof -
  have h1: "\<not> draining (run [PanelPin False] idle) \<and>
      draining (step Timer2B (run [PanelPin False] idle))"
    by code_simp
  have h2: "draining
        (run [PanelPin False, Timer2B, Timer1A, Timer1A, PanelPin True, PanelPin False] idle) \<and>
      \<not> draining
        (step Timer2B
          (run [PanelPin False, Timer2B, Timer1A, Timer1A, PanelPin True, PanelPin False] idle))"
    by code_simp
  from h1 drainCycles_reset_on_start [of "run [PanelPin False] idle" Timer2B]
  have g1: "drainCycles (step Timer2B (run [PanelPin False] idle)) = 0"
    by (simp del: run.simps step.simps)
  from h2 drainCycles_reset_on_start
    [of "run [PanelPin False, Timer2B, Timer1A, Timer1A, PanelPin True, PanelPin False] idle"
      Timer2B]
  have g2: "drainCycles
      (step Timer2B
        (run [PanelPin False, Timer2B, Timer1A, Timer1A, PanelPin True, PanelPin False] idle))
      = drainCycles
         (run [PanelPin False, Timer2B, Timer1A, Timer1A, PanelPin True, PanelPin False] idle)"
    by (simp del: run.simps step.simps)
  from h1 h2 g1 g2 show ?thesis
    by (simp del: run.simps step.simps)
qed

text \<open>
  The claim as stated fails on both paths: after two watchdog ticks a second press of the
  panel button ends the drain with the counter still at 2, and the watchdog tick that ends a
  drain leaves the counter at 201.
\<close>

theorem drainCycles_kept_on_stop_counterexample:
  "draining (run [PanelPin False, Timer2B, Timer1A, Timer1A, PanelPin True, PanelPin False] idle) \<and>
   \<not> draining
      (step Timer2B
        (run [PanelPin False, Timer2B, Timer1A, Timer1A, PanelPin True, PanelPin False] idle)) \<and>
   drainCycles
      (step Timer2B
        (run [PanelPin False, Timer2B, Timer1A, Timer1A, PanelPin True, PanelPin False] idle)) = 2 \<and>
   draining (run ([PanelPin False, Timer2B] @ replicate 200 Timer1A) idle) \<and>
   \<not> draining (step Timer1A (run ([PanelPin False, Timer2B] @ replicate 200 Timer1A) idle)) \<and>
   drainCycles (step Timer1A (run ([PanelPin False, Timer2B] @ replicate 200 Timer1A) idle)) = 201"
  by code_simp

subsection \<open>Timers\<close>

lemma arm_INT4:
  "armed COMP2A (ISR_INT4 s) \<and> ticks_to_match COMP2A (ISR_INT4 s) = unat OCR2A \<and>
   map (\<lambda>c. armed c (ISR_INT4 s)) [COMP1A, COMP1B, COMP2B, COMP4A, COMP5A]
     = map (\<lambda>c. armed c s) [COMP1A, COMP1B, COMP2B, COMP4A, COMP5A] \<and>
   map (\<lambda>c. ticks_to_match c (ISR_INT4 s)) [COMP1A, COMP1B, COMP4A, COMP5A]
     = map (\<lambda>c. ticks_to_match c s) [COMP1A, COMP1B, COMP4A, COMP5A] \<and>
   ticks_to_match COMP2B (ISR_INT4 s) = unat OCR2B"
  by (simp add: ISR_INT4_def bit_simps OCIE2A_def OCIE2B_def)

lemma arm_INT3:
  "armed COMP2B (ISR_INT3 s) \<and> ticks_to_match COMP2B (ISR_INT3 s) = unat OCR2B \<and>
   map (\<lambda>c. armed c (ISR_INT3 s)) [COMP1A, COMP1B, COMP2A, COMP4A, COMP5A]
     = map (\<lambda>c. armed c s) [COMP1A, COMP1B, COMP2A, COMP4A, COMP5A] \<and>
   map (\<lambda>c. ticks_to_match c (ISR_INT3 s)) [COMP1A, COMP1B, COMP4A, COMP5A]
     = map (\<lambda>c. ticks_to_match c s) [COMP1A, COMP1B, COMP4A, COMP5A] \<and>
   ticks_to_match COMP2A (ISR_INT3 s) = unat OCR2A"
  by (simp add: ISR_INT3_def bit_simps OCIE2A_def OCIE2B_def)

lemma arm_loop:
  "armed COMP1B (loop_arm_trial j s) \<and> ticks_to_match COMP1B (loop_arm_trial j s) = unat OCR1B \<and>
   map (\<lambda>c. armed c (loop_arm_trial j s)) [COMP1A, COMP2A, COMP2B, COMP4A, COMP5A]
     = map (\<lambda>c. armed c s) [COMP1A, COMP2A, COMP2B, COMP4A, COMP5A] \<and>
   map (\<lambda>c. ticks_to_match c (loop_arm_trial j s)) [COMP2A, COMP2B, COMP4A, COMP5A]
     = map (\<lambda>c. ticks_to_match c s) [COMP2A, COMP2B, COMP4A, COMP5A] \<and>
   ticks_to_match COMP1A (loop_arm_trial j s) = unat OCR1A"
  by (simp add: loop_arm_trial_def bit_simps OCIE1A_def OCIE1B_def)

lemma arm_INT5:
  "(pinDigital s \<and> \<not> digitalTrigger s \<and> \<not> valveOpen s \<longrightarrow>
      armed COMP4A (ISR_INT5 s) \<and> ticks_to_match COMP4A (ISR_INT5 s) = unat OCR4A) \<and>
   map (\<lambda>c. armed c (ISR_INT5 s)) [COMP1A, COMP1B, COMP2A, COMP2B, COMP5A]
     = map (\<lambda>c. armed c s) [COMP1A, COMP1B, COMP2A, COMP2B, COMP5A] \<and>
   map (\<lambda>c. ticks_to_match c (ISR_INT5 s)) [COMP1A, COMP1B, COMP2A, COMP2B, COMP5A]
     = map (\<lambda>c. ticks_to_match c s) [COMP1A, COMP1B, COMP2A, COMP2B, COMP5A]"
  by (simp add: ISR_INT5_def Let_def bit_simps OCIE4A_def)

lemma arm_TIMER1_COMPB:
  "(releaseCount s + 1 < maxReleases s \<longrightarrow>
      armed COMP5A (ISR_TIMER1_COMPB s) \<and>
      ticks_to_match COMP5A (ISR_TIMER1_COMPB s) = unat OCR5A \<and>
      map (\<lambda>c. armed c (ISR_TIMER1_COMPB s)) [COMP1A, COMP1B] = map (\<lambda>c. armed c s) [COMP1A, COMP1B]) \<and>
   map (\<lambda>c. armed c (ISR_TIMER1_COMPB s)) [COMP2A, COMP2B, COMP4A]
     = map (\<lambda>c. armed c s) [COMP2A, COMP2B, COMP4A] \<and>
   map (\<lambda>c. ticks_to_match c (ISR_TIMER1_COMPB s)) [COMP1A, COMP1B, COMP2A, COMP2B, COMP4A]
     = map (\<lambda>c. ticks_to_match c s) [COMP1A, COMP1B, COMP2A, COMP2B, COMP4A]"
  by (simp add: ISR_TIMER1_COMPB_def digitalWrite_digitalTrigger_def pinMode_digitalTrigger_def
      Let_def bit_simps OCIE5A_def)

lemma arm_TIMER2_COMPA:
  "(\<not> pinManual s \<and> \<not> manualTrigger s \<and> \<not> valveOpen s \<longrightarrow>
      armed COMP4A (ISR_TIMER2_COMPA s) \<and> ticks_to_match COMP4A (ISR_TIMER2_COMPA s) = unat OCR4A) \<and>
   map (\<lambda>c. armed c (ISR_TIMER2_COMPA s)) [COMP1A, COMP1B, COMP5A]
     = map (\<lambda>c. armed c s) [COMP1A, COMP1B, COMP5A] \<and>
   map (\<lambda>c. ticks_to_match c (ISR_TIMER2_COMPA s)) [COMP1A, COMP1B, COMP2A, COMP2B, COMP5A]
     = map (\<lambda>c. ticks_to_match c s) [COMP1A, COMP1B, COMP2A, COMP2B, COMP5A]"
  by (simp add: ISR_TIMER2_COMPA_def Let_def bit_simps OCIE4A_def)

lemma arm_TIMER2_COMPB:
  "(\<not> pinPanel s \<and> \<not> draining s \<and> \<not> valveOpen s \<longrightarrow>
      armed COMP1A (ISR_TIMER2_COMPB s) \<and> ticks_to_match COMP1A (ISR_TIMER2_COMPB s) = unat OCR1A \<and>
      armed COMP4A (ISR_TIMER2_COMPB s) \<and> ticks_to_match COMP4A (ISR_TIMER2_COMPB s) = unat OCR4A \<and>
      armed COMP1B (ISR_TIMER2_COMPB s) = armed COMP1B s \<and>
      ticks_to_match COMP1B (ISR_TIMER2_COMPB s) = unat OCR1B) \<and>
   armed COMP5A (ISR_TIMER2_COMPB s) = armed COMP5A s \<and>
   map (\<lambda>c. ticks_to_match c (ISR_TIMER2_COMPB s)) [COMP2A, COMP2B, COMP5A]
     = map (\<lambda>c. ticks_to_match c s) [COMP2A, COMP2B, COMP5A]"
  by (simp add: ISR_TIMER2_COMPB_def Let_def bit_simps OCIE1A_def OCIE1B_def OCIE4A_def)

text \<open>
  Claim C9, as the code has it. The routines that only arm a timer, \<^verbatim>\<open>INT4\<close> for the manual
  debounce, \<^verbatim>\<open>INT3\<close> for the panel debounce and the main loop's trial setup for the
  calibration timer, leave the armed state of every other channel unchanged and the deadlines
  of the channels on the other counters unchanged, but restart the deadline of the channel that
  shares their counter. Arming the hold timer in \<^verbatim>\<open>INT5\<close> and arming the pulse clock in
  \<^verbatim>\<open>TIMER1_COMPB\<close> leave the armed state and the deadline of every other channel unchanged.
  When \<^verbatim>\<open>TIMER2_COMPA\<close> arms the hold timer, and when \<^verbatim>\<open>TIMER2_COMPB\<close> arms the drain
  watchdog and the hold timer, every channel of timers 1, 4 and 5 that they do not arm keeps
  its armed state and its deadline, except that arming the drain watchdog restarts the
  deadline of the calibration channel on the same counter; the deadlines of the two debounce
  channels are unchanged as well. What these two interrupts do to the enable bits of the
  debounce channels themselves is not part of the statement.
\<close>

theorem arming_leaves_other_timers:
  "(armed COMP2A (ISR_INT4 s) \<and> ticks_to_match COMP2A (ISR_INT4 s) = unat OCR2A \<and>
      map (\<lambda>c. armed c (ISR_INT4 s)) [COMP1A, COMP1B, COMP2B, COMP4A, COMP5A]
        = map (\<lambda>c. armed c s) [COMP1A, COMP1B, COMP2B, COMP4A, COMP5A] \<and>
      map (\<lambda>c. ticks_to_match c (ISR_INT4 s)) [COMP1A, COMP1B, COMP4A, COMP5A]
        = map (\<lambda>c. ticks_to_match c s) [COMP1A, COMP1B, COMP4A, COMP5A] \<and>
      ticks_to_match COMP2B (ISR_INT4 s) = unat OCR2B) \<and>
    (armed COMP2B (ISR_INT3 s) \<and> ticks_to_match COMP2B (ISR_INT3 s) = unat OCR2B \<and>
      map (\<lambda>c. armed c (ISR_INT3 s)) [COMP1A, COMP1B, COMP2A, COMP4A, COMP5A]
        = map (\<lambda>c. armed c s) [COMP1A, COMP1B, COMP2A, COMP4A, COMP5A] \<and>
      map (\<lambda>c. ticks_to_match c (ISR_INT3 s)) [COMP1A, COMP1B, COMP4A, COMP5A]
        = map (\<lambda>c. ticks_to_match c s) [COMP1A, COMP1B, COMP4A, COMP5A] \<and>
      ticks_to_match COMP2A (ISR_INT3 s) = unat OCR2A) \<and>
    (armed COMP1B (loop_arm_trial j s) \<and> ticks_to_match COMP1B (loop_arm_trial j s) = unat OCR1B \<and>
      map (\<lambda>c. armed c (loop_arm_trial j s)) [COMP1A, COMP2A, COMP2B, COMP4A, COMP5A]
        = map (\<lambda>c. armed c s) [COMP1A, COMP2A, COMP2B, COMP4A, COMP5A] \<and>
      map (\<lambda>c. ticks_to_match c (loop_arm_trial j s)) [COMP2A, COMP2B, COMP4A, COMP5A]
        = map (\<lambda>c. ticks_to_match c s) [COMP2A, COMP2B, COMP4A, COMP5A] \<and>
      ticks_to_match COMP1A (loop_arm_trial j s) = unat OCR1A) \<and>
    ((pinDigital s \<and> \<not> digitalTrigger s \<and> \<not> valveOpen s \<longrightarrow>
         armed COMP4A (ISR_INT5 s) \<and> ticks_to_match COMP4A (ISR_INT5 s) = unat OCR4A) \<and>
      map (\<lambda>c. armed c (ISR_INT5 s)) [COMP1A, COMP1B, COMP2A, COMP2B, COMP5A]
        = map (\<lambda>c. armed c s) [COMP1A, COMP1B, COMP2A, COMP2B, COMP5A] \<and>
      map (\<lambda>c. ticks_to_match c (ISR_INT5 s)) [COMP1A, COMP1B, COMP2A, COMP2B, COMP5A]
        = map (\<lambda>c. ticks_to_match c s) [COMP1A, COMP1B, COMP2A, COMP2B, COMP5A]) \<and>
    ((releaseCount s + 1 < maxReleases s \<longrightarrow>
         armed COMP5A (ISR_TIMER1_COMPB s) \<and>
         ticks_to_match COMP5A (ISR_TIMER1_COMPB s) = unat OCR5A \<and>
         map (\<lambda>c. armed c (ISR_TIMER1_COMPB s)) [COMP1A, COMP1B] = map (\<lambda>c. armed c s) [COMP1A, COMP1B]) \<and>
      map (\<lambda>c. armed c (ISR_TIMER1_COMPB s)) [COMP2A, COMP2B, COMP4A]
        = map (\<lambda>c. armed c s) [COMP2A, COMP2B, COMP4A] \<and>
      map (\<lambda>c. ticks_to_match c (ISR_TIMER1_COMPB s)) [COMP1A, COMP1B, COMP2A, COMP2B, COMP4A]
        = map (\<lambda>c. ticks_to_match c s) [COMP1A, COMP1B, COMP2A, COMP2B, COMP4A]) \<and>
    ((\<not> pinManual s \<and> \<not> manualTrigger s \<and> \<not> valveOpen s \<longrightarrow>
         armed COMP4A (ISR_TIMER2_COMPA s) \<and> ticks_to_match COMP4A (ISR_TIMER2_COMPA s) = unat OCR4A) \<and>
      map (\<lambda>c. armed c (ISR_TIMER2_COMPA s)) [COMP1A, COMP1B, COMP5A]
        = map (\<lambda>c. armed c s) [COMP1A, COMP1B, COMP5A] \<and>
      map (\<lambda>c. ticks_to_match c (ISR_TIMER2_COMPA s)) [COMP1A, COMP1B, COMP2A, COMP2B, COMP5A]
        = map (\<lambda>c. ticks_to_match c s) [COMP1A, COMP1B, COMP2A, COMP2B, COMP5A]) \<and>
    ((\<not> pinPanel s \<and> \<not> draining s \<and> \<not> valveOpen s \<longrightarrow>
         armed COMP1A (ISR_TIMER2_COMPB s) \<and> ticks_to_match COMP1A (ISR_TIMER2_COMPB s) = unat OCR1A \<and>
         armed COMP4A (ISR_TIMER2_COMPB s) \<and> ticks_to_match COMP4A (ISR_TIMER2_COMPB s) = unat OCR4A \<and>
         armed COMP1B (ISR_TIMER2_COMPB s) = armed COMP1B s \<and>
         ticks_to_match COMP1B (ISR_TIMER2_COMPB s) = unat OCR1B) \<and>
      armed COMP5A (ISR_TIMER2_COMPB s) = armed COMP5A s \<and>
      map (\<lambda>c. ticks_to_match c (ISR_TIMER2_COMPB s)) [COMP2A, COMP2B, COMP5A]
        = map (\<lambda>c. ticks_to_match c s) [COMP2A, COMP2B, COMP5A])"
  by (rule conjI [OF arm_INT4 conjI [OF arm_INT3 conjI [OF arm_loop conjI [OF arm_INT5
      conjI [OF arm_TIMER1_COMPB conjI [OF arm_TIMER2_COMPA arm_TIMER2_COMPB]]]]]])

theorem arming_leaves_other_timers_witness:
  "(pinDigital (idle\<lparr>pinDigital := True\<rparr>) \<and> \<not> digitalTrigger (idle\<lparr>pinDigital := True\<rparr>) \<and>
    \<not> valveOpen (idle\<lparr>pinDigital := True\<rparr>) \<and>
    armed COMP4A (ISR_INT5 (idle\<lparr>pinDigital := True\<rparr>))) \<and>
   (releaseCount (run [ArmTrial 9] idle) + 1 < maxReleases (run [ArmTrial 9] idle) \<and>
    armed COMP1B (run [ArmTrial 9] idle) \<and>
    armed COMP5A (ISR_TIMER1_COMPB (run [ArmTrial 9] idle)) \<and>
    armed COMP1B (ISR_TIMER1_COMPB (run [ArmTrial 9] idle))) \<and>
   (\<not> pinManual (run [ManualPin False] idle) \<and> \<not> manualTrigger (run [ManualPin False] idle) \<and>
    \<not> valveOpen (run [ManualPin False] idle) \<and>
    armed COMP4A (ISR_TIMER2_COMPA (run [ManualPin False] idle))) \<and>
   (\<not> pinPanel (run [ArmTrial 9, Count T1, Count T1, PanelPin False] idle) \<and>
    \<not> draining (run [ArmTrial 9, Count T1, Count T1, PanelPin False] idle) \<and>
    \<not> valveOpen (run [ArmTrial 9, Count T1, Count T1, PanelPin False] idle) \<and>
    armed COMP1B (run [ArmTrial 9, Count T1, Count T1, PanelPin False] idle) \<and>
    ticks_to_match COMP1B (run [ArmTrial 9, Count T1, Count T1, PanelPin False] idle) = 15622 \<and>
    armed COMP1A (ISR_TIMER2_COMPB (run [ArmTrial 9, Count T1, Count T1, PanelPin False] idle)) \<and>
    armed COMP1B (ISR_TIMER2_COMPB (run [ArmTrial 9, Count T1, Count T1, PanelPin False] idle)) \<and>
    ticks_to_match COMP1B
      (ISR_TIMER2_COMPB (run [ArmTrial 9, Count T1, Count T1, PanelPin False] idle)) = 15624)"
proof -
  have h5: "pinDigital (idle\<lparr>pinDigital := True\<rparr>) \<and> \<not> digitalTrigger (idle\<lparr>pinDigital := True\<rparr>) \<and>
      \<not> valveOpen (idle\<lparr>pinDigital := True\<rparr>)"
    by code_simp
  have hb: "releaseCount (run [ArmTrial 9] idle) + 1 < maxReleases (run [ArmTrial 9] idle) \<and>
      armed COMP1B (run [ArmTrial 9] idle)"
    by code_simp
  have ha: "\<not> pinManual (run [ManualPin False] idle) \<and>
      \<not> manualTrigger (run [ManualPin False] idle) \<and> \<not> valveOpen (run [ManualPin False] idle)"
    by code_simp
  have hp: "\<not> pinPanel (run [ArmTrial 9, Count T1, Count T1, PanelPin False] idle) \<and>
      \<not> draining (run [ArmTrial 9, Count T1, Count T1, PanelPin False] idle) \<and>
      \<not> valveOpen (run [ArmTrial 9, Count T1, Count T1, PanelPin False] idle) \<and>
      armed COMP1B (run [ArmTrial 9, Count T1, Count T1, PanelPin False] idle) \<and>
      ticks_to_match COMP1B (run [ArmTrial 9, Count T1, Count T1, PanelPin False] idle) = 15622"
    by code_simp
  from h5 arming_leaves_other_timers [of "idle\<lparr>pinDigital := True\<rparr>" 0]
  have g5: "armed COMP4A (ISR_INT5 (idle\<lparr>pinDigital := True\<rparr>))"
    by (simp del: run.simps)
  from hb arming_leaves_other_timers [of "run [ArmTrial 9] idle" 0]
  have gb: "armed COMP5A (ISR_TIMER1_COMPB (run [ArmTrial 9] idle)) \<and>
      armed COMP1B (ISR_TIMER1_COMPB (run [ArmTrial 9] idle))"
    by (simp del: run.simps)
  from ha arming_leaves_other_timers [of "run [ManualPin False] idle" 0]
  have ga: "armed COMP4A (ISR_TIMER2_COMPA (run [ManualPin False] idle))"
    by (simp del: run.simps)
  from hp arming_leaves_other_timers
    [of "run [ArmTrial 9, Count T1, Count T1, PanelPin False] idle" 0]
  have gp: "armed COMP1A (ISR_TIMER2_COMPB (run [ArmTrial 9, Count T1, Count T1, PanelPin False] idle)) \<and>
    armed COMP1B (ISR_TIMER2_COMPB (run [ArmTrial 9, Count T1, Count T1, PanelPin False] idle)) \<and>
    ticks_to_match COMP1B
      (ISR_TIMER2_COMPB (run [ArmTrial 9, Count T1, Count T1, PanelPin False] idle)) = 15624"
    by (simp del: run.simps add: OCR1B_def)
  from h5 hb ha hp g5 gb ga gp show ?thesis
    by (simp del: run.simps)
qed

text \<open>
  The claim as stated fails on the shared counters. Three counts of timer 2 after the panel
  button went down, its debounce is 121 counts from firing; an edge on the manual trigger then
  puts it back to 124. Two counts of timer 1 into a drain, the watchdog tick is 15622 counts
  away; arming a calibration trial puts it back to 15624.
\<close>

theorem shared_counter_counterexample:
  "armed COMP2B (run [PanelPin False, Count T2, Count T2, Count T2] idle) \<and>
   ticks_to_match COMP2B (run [PanelPin False, Count T2, Count T2, Count T2] idle) = 121 \<and>
   armed COMP2B (step (ManualPin False) (run [PanelPin False, Count T2, Count T2, Count T2] idle)) \<and>
   ticks_to_match COMP2B
     (step (ManualPin False) (run [PanelPin False, Count T2, Count T2, Count T2] idle)) = 124 \<and>
   armed COMP1A (run [PanelPin False, Timer2B, Count T1, Count T1] idle) \<and>
   ticks_to_match COMP1A (run [PanelPin False, Timer2B, Count T1, Count T1] idle) = 15622 \<and>
   armed COMP1A (step (ArmTrial 0) (run [PanelPin False, Timer2B, Count T1, Count T1] idle)) \<and>
   ticks_to_match COMP1A
     (step (ArmTrial 0) (run [PanelPin False, Timer2B, Count T1, Count T1] idle)) = 15624"
  by code_simp

subsection \<open>The drain watchdog\<close>

text \<open>
  Claim C3 at a drain started from idle and left alone. After the 200th coarse tick the drain
  is still on and the valve open; the 201st tick ends it.
\<close>

theorem drain_ends_on_tick_201:
  "draining (run [PanelPin False, Timer2B] idle) \<and>
   drainCycles (run [PanelPin False, Timer2B] idle) = 0 \<and>
   draining (run ([PanelPin False, Timer2B] @ replicate 200 Timer1A) idle) \<and>
   valveOpen (run ([PanelPin False, Timer2B] @ replicate 200 Timer1A) idle) \<and>
   drainCycles (run ([PanelPin False, Timer2B] @ replicate 200 Timer1A) idle) = maxDrainCycles \<and>
   \<not> draining (run ([PanelPin False, Timer2B] @ replicate 201 Timer1A) idle) \<and>
   \<not> valveOpen (run ([PanelPin False, Timer2B] @ replicate 201 Timer1A) idle) \<and>
   valvePower (run ([PanelPin False, Timer2B] @ replicate 201 Timer1A) idle) = 0"
  by code_simp

subsection \<open>Calibration pulses\<close>

text \<open>
  Claim C4 at the trial with \<open>openTime = 100\<close>. The release interrupt starts the pulse with
  the tick counter at zero. The trigger is still asserted after 100 and after 101 ticks of the
  1 ms clock; the 102nd tick deasserts it and the valve closes.
\<close>

theorem pulse_of_100_lasts_102_ticks:
  "maxTicks (run [ArmTrial 3, Timer1B] idle) = 100 \<and>
   tickCounter (run [ArmTrial 3, Timer1B] idle) = 0 \<and>
   pinDigital (run [ArmTrial 3, Timer1B] idle) \<and>
   valveOpen (run [ArmTrial 3, Timer1B] idle) \<and>
   pinDigital (run ([ArmTrial 3, Timer1B] @ replicate 100 Timer5A) idle) \<and>
   pinDigital (run ([ArmTrial 3, Timer1B] @ replicate 101 Timer5A) idle) \<and>
   valveOpen (run ([ArmTrial 3, Timer1B] @ replicate 101 Timer5A) idle) \<and>
   \<not> pinDigital (run ([ArmTrial 3, Timer1B] @ replicate 102 Timer5A) idle) \<and>
   \<not> valveOpen (run ([ArmTrial 3, Timer1B] @ replicate 102 Timer5A) idle)"
  by code_simp

subsection \<open>The release sequencer\<close>

lemma observe_eq:
  "observe es (s, a, d) = (run es s, a + assertions es s, d + deassertions es s)"
  by (induction es arbitrary: s a d) (simp_all add: tally_def)

lemma trial_9_verdict:
  "verdict (observe (ArmTrial 9 # concat (replicate 11 (release_period 222))) (idle, 0, 0))
     = (True, 11, 10, 10)"
  by code_simp

text \<open>
  Claim C2 at the trial with \<open>numOpens = 11\<close> and \<open>openTime = 220\<close>, run from idle with
  the 222 pulse-clock interrupts that are served after each release interrupt. The release
  counter is incremented by the release interrupt, before the pulse: it reads 1 when the
  trigger has not been deasserted at all. When the sequence is complete the counter reads 11,
  the number the main loop divides the volume by, but the trigger has been asserted and
  deasserted only 10 times: the 11th release interrupt ends the sequence without a pulse.
\<close>

theorem trial_of_11_delivers_10_pulses:
  "maxReleases (run [ArmTrial 9] idle) = 11 \<and>
   releaseCount (run [ArmTrial 9, Timer1B] idle) = 1 \<and>
   deassertions [ArmTrial 9, Timer1B] idle = 0 \<and>
   sequenceComplete (run (ArmTrial 9 # concat (replicate 11 (release_period 222))) idle) \<and>
   releaseCount (run (ArmTrial 9 # concat (replicate 11 (release_period 222))) idle) = 11 \<and>
   assertions (ArmTrial 9 # concat (replicate 11 (release_period 222))) idle = 10 \<and>
   deassertions (ArmTrial 9 # concat (replicate 11 (release_period 222))) idle = 10"
proof -
  have a: "maxReleases (run [ArmTrial 9] idle) = 11 \<and>
      releaseCount (run [ArmTrial 9, Timer1B] idle) = 1 \<and>
      deassertions [ArmTrial 9, Timer1B] idle = 0"
    by code_simp
  from trial_9_verdict
  have b: "sequenceComplete (run (ArmTrial 9 # concat (replicate 11 (release_period 222))) idle) \<and>
   releaseCount (run (ArmTrial 9 # concat (replicate 11 (release_period 222))) idle) = 11 \<and>
   assertions (ArmTrial 9 # concat (replicate 11 (release_period 222))) idle = 10 \<and>
   deassertions (ArmTrial 9 # concat (replicate 11 (release_period 222))) idle = 10"
    unfolding observe_eq verdict.simps by (simp del: run.simps assertions.simps deassertions.simps)
  from a b show ?thesis
    by (simp del: run.simps assertions.simps deassertions.simps)
qed

end
